theory Spec2Isabelle
  imports Main
begin

section \<open>JavaScript values used by the server\<close>

text \<open>
  The server keeps its lookup tables in object literals and reads them with
  \<open>table[key]\<close>.  Such a read returns the table's own entry when there is one, and
  otherwise whatever \<open>Object.prototype\<close> provides under that name (a built-in function,
  or the prototype object itself for \<open>__proto__\<close>); only when neither exists is the result
  \<open>undefined\<close>.  The names below are the own properties of \<open>Object.prototype\<close> in
  Node.js; every one of them is truthy.
\<close>

definition object_prototype_members :: "string list" where
  "object_prototype_members =
     [''constructor'', ''__defineGetter__'', ''__defineSetter__'', ''hasOwnProperty'',
      ''__lookupGetter__'', ''__lookupSetter__'', ''isPrototypeOf'', ''propertyIsEnumerable'',
      ''toString'', ''valueOf'', ''__proto__'', ''toLocaleString'']"

text \<open>What a read of a numeric table yields: a number of the table, or an inherited built-in.\<close>

datatype member = Points int | Builtin string

definition get_property :: "(string \<times> int) list \<Rightarrow> string \<Rightarrow> member option" where
  "get_property table k =
     (case map_of table k of
        Some n \<Rightarrow> Some (Points n)
      | None \<Rightarrow> if k \<in> set object_prototype_members then Some (Builtin k) else None)"

text \<open>\<open>v || d\<close>: the left operand unless it is falsy (\<open>undefined\<close> or the number 0).\<close>

definition or_default :: "member option \<Rightarrow> int \<Rightarrow> member" where
  "or_default v d =
     (case v of
        None \<Rightarrow> Points d
      | Some (Points n) \<Rightarrow> if n = 0 then Points d else Points n
      | Some (Builtin k) \<Rightarrow> Builtin k)"

text \<open>
  The running \<open>riskScore\<close>.  It starts as the number 0; \<open>+=\<close> with a number adds, \<open>+=\<close>
  with a built-in function or object converts both sides to strings and concatenates, and
  from then on every \<open>+=\<close> concatenates.  The concatenated text always contains the
  source text of the built-in (\<open>function Object() { [native code] }\<close>,
  \<open>[object Object]\<close>), so it never reads as a number and its content is not tracked.
\<close>

datatype running = Sum int | Concatenation

fun plus_assign :: "running \<Rightarrow> member \<Rightarrow> running" where
  "plus_assign (Sum a) (Points n) = Sum (a + n)"
| "plus_assign (Sum a) (Builtin k) = Concatenation"
| "plus_assign Concatenation m = Concatenation"

datatype js_number = Finite int | NaN

text \<open>\<open>Math.min(riskScore, 100)\<close>: a string that is not numeric converts to NaN.\<close>

fun Math_min_100 :: "running \<Rightarrow> js_number" where
  "Math_min_100 (Sum n) = Finite (min n 100)"
| "Math_min_100 Concatenation = NaN"

text \<open>Decimal text of a natural number, for \<open>exploits.length + ' exploit(s) found'\<close>.\<close>

fun decimal :: "nat \<Rightarrow> string" where
  "decimal n =
     (if n < 10 then [''0123456789'' ! n]
      else decimal (n div 10) @ [''0123456789'' ! (n mod 10)])"

declare decimal.simps [simp del]

section \<open>Data model\<close>

record spender_details =
  name :: string
  description :: string
  isVerified :: bool
  riskLevel :: string
  category :: string
  risks :: "string list"
  benefits :: "string list"
  documentation :: string
  audited :: bool

record exploit =
  exploit_name :: string
  exploit_date :: string
  affectedContracts :: "string list"

record risk_factor =
  factor_name :: string
  factor_value :: string
  contribution :: member

record risk_assessment =
  score :: js_number
  factors :: "risk_factor list"

section \<open>Risk scoring engine (\<open>calculateRiskScore\<close>)\<close>

definition categoryRiskMap :: "(string \<times> int) list" where
  "categoryRiskMap =
     [(''DEX'', 4), (''Lending'', 12), (''Staking'', 8), (''Bridge'', 15),
      (''NFT'', 20), (''Other'', 20), (''Unknown'', 25)]"

definition riskLevelMap :: "(string \<times> int) list" where
  "riskLevelMap = [(''low'', 0), (''medium'', 10), (''high'', 20), (''unknown'', 15)]"

definition maxUint256 :: int where
  "maxUint256 = 115792089237316195423570985008687907853269984665640564039457584007913129639935"

text \<open>Factor 1: audit status.\<close>

definition audit_factor :: "spender_details \<Rightarrow> risk_factor" where
  "audit_factor spenderDetails =
     (if audited spenderDetails then
        \<lparr>factor_name = ''Audit Status'', factor_value = ''Audited'', contribution = Points 0\<rparr>
      else if isVerified spenderDetails then
        \<lparr>factor_name = ''Audit Status'', factor_value = ''Verified'', contribution = Points 12\<rparr>
      else
        \<lparr>factor_name = ''Audit Status'', factor_value = ''Not Audited'',
         contribution = Points 25\<rparr>)"

text \<open>Factor 2: \<open>categoryRiskMap[spenderDetails.category] || 20\<close>.\<close>

definition category_factor :: "spender_details \<Rightarrow> risk_factor" where
  "category_factor spenderDetails =
     (let categoryRisk = or_default (get_property categoryRiskMap (category spenderDetails)) 20
      in \<lparr>factor_name = ''Category'', factor_value = category spenderDetails,
          contribution = categoryRisk\<rparr>)"

text \<open>Factor 3: \<open>riskLevelMap[spenderDetails.riskLevel] || 15\<close>.\<close>

definition risk_level_factor :: "spender_details \<Rightarrow> risk_factor" where
  "risk_level_factor spenderDetails =
     (let riskLevelScore = or_default (get_property riskLevelMap (riskLevel spenderDetails)) 15
      in \<lparr>factor_name = ''Risk Level'', factor_value = riskLevel spenderDetails,
          contribution = riskLevelScore\<rparr>)"

text \<open>
  Factor 4: allowance against balance.  \<open>allowance\<close> and \<open>userBalance\<close> are the BigInt
  values of the decimal strings the caller passes (\<open>toString()\<close> of the \<open>uint256\<close> results
  of the contract calls).
\<close>

definition allowance_factor :: "int \<Rightarrow> int \<Rightarrow> risk_factor" where
  "allowance_factor allowance userBalance =
     (if allowance = maxUint256 then
        \<lparr>factor_name = ''Allowance'', factor_value = ''Unlimited'', contribution = Points 20\<rparr>
      else if allowance > userBalance * 10 then
        \<lparr>factor_name = ''Allowance'', factor_value = ''Very High (>10x balance)'',
         contribution = Points 15\<rparr>
      else if allowance > userBalance then
        \<lparr>factor_name = ''Allowance'', factor_value = ''High (>balance)'',
         contribution = Points 10\<rparr>
      else
        \<lparr>factor_name = ''Allowance'', factor_value = ''Reasonable'', contribution = Points 5\<rparr>)"

text \<open>
  Factor 5: known exploits.  In the branch without exploits the source pushes the factor
  and leaves \<open>riskScore\<close> as it is, which is the same as adding the number 0 when the
  score is a number and keeps a concatenation a concatenation.
\<close>

definition exploit_factor :: "exploit list \<Rightarrow> risk_factor" where
  "exploit_factor exploits =
     (if length exploits > 0 then
        \<lparr>factor_name = ''Known Exploits'',
         factor_value = decimal (length exploits) @ '' exploit(s) found'',
         contribution = Points 15\<rparr>
      else
        \<lparr>factor_name = ''Known Exploits'', factor_value = ''None'', contribution = Points 0\<rparr>)"

definition calculateRiskScore ::
    "spender_details \<Rightarrow> int \<Rightarrow> int \<Rightarrow> exploit list \<Rightarrow> risk_assessment" where
  "calculateRiskScore spenderDetails allowance userBalance exploits =
     (let riskFactors =
            [audit_factor spenderDetails, category_factor spenderDetails,
             risk_level_factor spenderDetails, allowance_factor allowance userBalance,
             exploit_factor exploits];
          riskScore = foldl plus_assign (Sum 0) (map contribution riskFactors)
      in \<lparr>score = Math_min_100 riskScore, factors = riskFactors\<rparr>)"

section \<open>JavaScript string operations\<close>

text \<open>
  Strings here are ASCII (hexadecimal addresses, contract names), so \<open>toLowerCase\<close> only
  has the letters A to Z to change.
\<close>

definition lower_char :: "char \<Rightarrow> char" where
  "lower_char c =
     (case map_of (zip ''ABCDEFGHIJKLMNOPQRSTUVWXYZ'' ''abcdefghijklmnopqrstuvwxyz'') c of
        Some l \<Rightarrow> l
      | None \<Rightarrow> c)"

definition toLowerCase :: "string \<Rightarrow> string" where
  "toLowerCase s = map lower_char s"

text \<open>\<open>s.padStart(targetLength, padString)\<close>.\<close>

definition padStart :: "nat \<Rightarrow> string \<Rightarrow> string \<Rightarrow> string" where
  "padStart targetLength padString s =
     (if targetLength \<le> length s \<or> padString = [] then s
      else take (targetLength - length s)
             (concat (replicate (targetLength - length s) padString)) @ s)"

text \<open>\<open>s.includes(key)\<close>: \<open>key\<close> occurs in \<open>s\<close> as a contiguous substring.\<close>

fun string_includes :: "string \<Rightarrow> string \<Rightarrow> bool" where
  "string_includes [] k = (k = [])"
| "string_includes (c # cs) k = (take (length k) (c # cs) = k \<or> string_includes cs k)"

section \<open>Revocation request builder (\<open>revokeApproval\<close>, browser side)\<close>

text \<open>
  The request handed to the wallet (\<open>eth_sendTransaction\<close>), and what one call of
  \<open>revokeApproval\<close> does: the messages it shows, in order, each with its type, and the
  requests it hands to the wallet.  \<open>connectedAddress\<close> is the page's variable of that
  name (\<open>null\<close> until a wallet is connected); the wallet is a collaborator that answers a
  request with a transaction hash or fails with a message.  The refresh of the list that
  is scheduled three seconds after a successful hand-off is not part of the model.
\<close>

record transaction_request =
  tx_from :: string
  tx_to :: string
  tx_data :: string

record revoke_effects =
  messages :: "(string \<times> string) list"
  requests :: "transaction_request list"

text \<open>The \<open>data\<close> constant of \<open>revokeApproval\<close>; \<open>slice(2)\<close> drops the first two characters.\<close>

definition revoke_data :: "string \<Rightarrow> string" where
  "revoke_data spenderAddress =
     ''0x095ea7b3'' @ padStart 64 ''0'' (drop 2 spenderAddress) @ padStart 64 ''0'' ''0''"

definition revokeApproval ::
    "(transaction_request \<Rightarrow> string + string) \<Rightarrow> string option \<Rightarrow>
     string \<Rightarrow> string \<Rightarrow> string \<Rightarrow> revoke_effects" where
  "revokeApproval wallet connectedAddress tokenAddress spenderAddress walletAddress =
     (case connectedAddress of
        None \<Rightarrow> \<lparr>messages = [(''Please connect your wallet first'', ''error'')], requests = []\<rparr>
      | Some connected \<Rightarrow>
          if connected = [] then
            \<lparr>messages = [(''Please connect your wallet first'', ''error'')], requests = []\<rparr>
          else if toLowerCase connected \<noteq> toLowerCase walletAddress then
            \<lparr>messages = [(''Connected wallet does not match the approval owner'', ''error'')],
             requests = []\<rparr>
          else
            let data = revoke_data spenderAddress;
                request = \<lparr>tx_from = connected, tx_to = tokenAddress, tx_data = data\<rparr>
            in (case wallet request of
                  Inr tx \<Rightarrow>
                    \<lparr>messages = [(''Preparing revoke transaction...'', ''success''),
                                 (''Transaction sent: '' @ take 10 tx @ ''...'', ''success'')],
                     requests = [request]\<rparr>
                | Inl error \<Rightarrow>
                    \<lparr>messages = [(''Preparing revoke transaction...'', ''success''),
                                 (''Error: '' @ error, ''error'')],
                     requests = [request]\<rparr>))"

section \<open>Addresses delivered by the chain library\<close>

text \<open>
  The token address of a log (\<open>log.address\<close>) and the spender decoded from it
  (\<open>parsedLog.args.spender\<close>) are produced by ethers, which normalises every address to
  the text \<open>0x\<close> followed by 40 hexadecimal digits.  The type below keeps what the
  server relies on: 42 characters, the first two being \<open>0x\<close>.
\<close>

typedef address = "{s :: string. length s = 42 \<and> take 2 s = ''0x''}"
  morphisms address_text Address
  by (rule exI [of _ "''0x'' @ replicate 40 (CHR ''0'')"]) simp

section \<open>Spender profile resolver (\<open>getSpenderDetails\<close>)\<close>

text \<open>An entry of \<open>contract_database.json\<close>, with the fields the server reads.\<close>

record db_contract =
  db_address :: string
  db_name :: string
  db_description :: string
  db_verified :: bool
  db_riskLevel :: string
  db_category :: string
  db_risks :: "string list"
  db_benefits :: "string list"
  db_documentation :: string
  db_audited :: bool

text \<open>
  What the verification service (Etherscan, through \<open>axios.get\<close>) can answer.  The call
  may fail (network error, non-2xx status); the response may have no body to read
  \<open>result\<close> from, which throws inside the \<open>try\<close>; the \<open>result\<close> member may be missing,
  a text (Etherscan reports errors such as a rate limit that way), or a list of contract
  entries.  Of an entry the server reads \<open>ContractName\<close> and \<open>SourceCode\<close>, both only
  for truthiness or as text, so a missing member is the empty string here.
\<close>

record etherscan_contract =
  ContractName :: string
  SourceCode :: string

datatype etherscan_result =
  No_result | Result_text string | Result_entries "etherscan_contract list"

datatype axios_outcome =
  Request_failed string | Response_without_data | Response_data etherscan_result

datatype thrown = Thrown string

definition descriptions :: "(string \<times> string) list" where
  "descriptions =
     [(''UniswapV3Router'', ''Can swap your tokens on Uniswap''),
      (''UniswapV2Router'', ''Can swap your tokens on Uniswap''),
      (''SwapRouter'', ''Can swap your tokens''),
      (''Seaport'', ''Can transfer your NFTs and tokens for trading''),
      (''CurveStableSwap'', ''Can use your tokens for swaps on Curve''),
      (''LidoStETH'', ''Can stake your ETH for stETH''),
      (''WETH9'', ''Can wrap/unwrap your ETH''),
      (''MasterChef'', ''Can use your tokens in liquidity pools''),
      (''AavePool'', ''Can use your tokens as collateral''),
      (''CompoundComptroller'', ''Can use your tokens as collateral''),
      (''MakerDAO'', ''Can use your tokens as collateral'')]"

fun first_description :: "(string \<times> string) list \<Rightarrow> string \<Rightarrow> string" where
  "first_description [] contractName = ''This contract can transfer your tokens.''"
| "first_description ((key, desc) # rest) contractName =
     (if string_includes contractName key then desc else first_description rest contractName)"

definition getApprovalDescription :: "string \<Rightarrow> string" where
  "getApprovalDescription contractName = first_description descriptions contractName"

text \<open>
  \<open>response.data.result && response.data.result[0]\<close>: the first entry of a list, or the
  first character of a non-empty text, which has neither \<open>ContractName\<close> nor
  \<open>SourceCode\<close>.
\<close>

fun first_result :: "etherscan_result \<Rightarrow> etherscan_contract option" where
  "first_result No_result = None"
| "first_result (Result_text []) = None"
| "first_result (Result_text (c # cs)) = Some \<lparr>ContractName = [], SourceCode = []\<rparr>"
| "first_result (Result_entries []) = None"
| "first_result (Result_entries (contract # rest)) = Some contract"

definition default_details :: "address \<Rightarrow> spender_details" where
  "default_details spenderAddress =
     \<lparr>name = ''Unknown Contract'',
      description = ''This contract can transfer your tokens.'',
      isVerified = False,
      riskLevel = ''high'',
      category = ''Unknown'',
      risks = [''Could be a scam or malicious contract'', ''No audit information available''],
      benefits = [],
      documentation = ''https://etherscan.io/address/'' @ address_text spenderAddress,
      audited = False\<rparr>"

text \<open>
  The body of the \<open>try\<close> block: it throws (\<open>Inl\<close>), returns a profile, or runs to its
  end without returning.  The registries are the lookup maps built at start-up, keyed by
  lower-cased address; a lower-cased address never names a member of \<open>Object.prototype\<close>
  (lemma \<open>address_key_not_inherited\<close>), so the read is the map's own entry or nothing.
\<close>

definition getSpenderDetails_try ::
    "(string \<rightharpoonup> db_contract) \<Rightarrow> (address \<Rightarrow> axios_outcome) \<Rightarrow> address \<Rightarrow>
     thrown + spender_details option" where
  "getSpenderDetails_try contractDatabase etherscan spenderAddress =
     (let normalizedAddress = toLowerCase (address_text spenderAddress)
      in case contractDatabase normalizedAddress of
           Some dbContract \<Rightarrow>
             Inr (Some \<lparr>name = db_name dbContract,
                        description = db_description dbContract,
                        isVerified = db_verified dbContract,
                        riskLevel = db_riskLevel dbContract,
                        category = db_category dbContract,
                        risks = db_risks dbContract,
                        benefits = db_benefits dbContract,
                        documentation = db_documentation dbContract,
                        audited = db_audited dbContract\<rparr>)
         | None \<Rightarrow>
             (case etherscan spenderAddress of
                Request_failed message \<Rightarrow> Inl (Thrown message)
              | Response_without_data \<Rightarrow>
                  Inl (Thrown ''Cannot read properties of undefined (reading result)'')
              | Response_data result \<Rightarrow>
                  (case first_result result of
                     None \<Rightarrow> Inr None
                   | Some contract \<Rightarrow>
                       let name = (if ContractName contract = [] then ''Unknown Contract''
                                   else ContractName contract)
                       in Inr (Some
                            \<lparr>name = name,
                             description = getApprovalDescription name,
                             isVerified = (SourceCode contract \<noteq> []),
                             riskLevel = ''unknown'',
                             category = ''Other'',
                             risks = [''Verify contract details before approving''],
                             benefits = [],
                             documentation =
                               ''https://etherscan.io/address/'' @ address_text spenderAddress,
                             audited = False\<rparr>))))"

text \<open>The whole function: the \<open>catch\<close> logs the error and falls through to the default.\<close>

definition getSpenderDetails ::
    "(string \<rightharpoonup> db_contract) \<Rightarrow> (address \<Rightarrow> axios_outcome) \<Rightarrow> address \<Rightarrow>
     spender_details" where
  "getSpenderDetails contractDatabase etherscan spenderAddress =
     (case getSpenderDetails_try contractDatabase etherscan spenderAddress of
        Inr (Some details) \<Rightarrow> details
      | Inr None \<Rightarrow> default_details spenderAddress
      | Inl e \<Rightarrow> default_details spenderAddress)"

definition checkForExploits :: "(string \<rightharpoonup> exploit list) \<Rightarrow> address \<Rightarrow> exploit list" where
  "checkForExploits exploitDatabase spenderAddress =
     (let normalizedAddress = toLowerCase (address_text spenderAddress)
      in case exploitDatabase normalizedAddress of
           Some exploits \<Rightarrow> exploits
         | None \<Rightarrow> [])"

section \<open>Approval discovery (\<open>POST /api/approvals\<close>)\<close>

text \<open>
  The two members the handler reads from \<open>req.body\<close>, the object that
  \<open>express.json()\<close> parsed.  A JSON number is either an integer or some other number
  (\<open>Fraction\<close>, never zero); \<open>Undefined\<close> is a missing member; \<open>Object\<close> stands for
  arrays and objects.
\<close>

datatype js_value =
  Undefined | Null | Boolean bool | Number int | Fraction | String string | Object

fun truthy :: "js_value \<Rightarrow> bool" where
  "truthy Undefined = False"
| "truthy Null = False"
| "truthy (Boolean b) = b"
| "truthy (Number n) = (n \<noteq> 0)"
| "truthy Fraction = True"
| "truthy (String s) = (s \<noteq> [])"
| "truthy Object = True"

record request_body =
  walletAddress :: js_value
  chainId :: js_value

text \<open>
  A log returned by the provider: the emitting token contract and the result of
  \<open>iface.parseLog(log)\<close>, which is the decoded spender, or nothing when the log does not
  decode as an ERC-20 \<open>Approval\<close> (the loop's \<open>catch\<close> skips it).
\<close>

record log_entry =
  log_address :: address
  parsed_spender :: "address option"

record approval =
  tokenAddress :: address
  spender :: address

text \<open>Calls that leave the process.\<close>

datatype external_call =
    GetLogs string
  | Allowance address string address
  | Name address
  | Symbol address
  | Decimals address
  | BalanceOf address string
  | GetSourceCode address

text \<open>
  Everything the handler is given: the two registries loaded at start-up, the ethers
  helpers \<open>isAddress\<close>, \<open>zeroPadValue\<close> and \<open>formatUnits\<close>, and the answers of the chain
  endpoint and of the verification service.  A contract call that rejects is \<open>None\<close>,
  and so is a \<open>formatUnits\<close> that throws (ethers refuses a number of decimals it does not
  support).
  The answers are one snapshot: the same call has the same answer throughout a request.
\<close>

record environment =
  contractDatabase :: "string \<rightharpoonup> db_contract"
  exploitDatabase :: "string \<rightharpoonup> exploit list"
  isAddress :: "string \<Rightarrow> bool"
  zeroPadValue :: "string \<Rightarrow> thrown + string"
  formatUnits :: "nat \<Rightarrow> nat \<Rightarrow> string option"
  getLogs :: "string \<Rightarrow> thrown + log_entry list"
  allowance :: "address \<Rightarrow> string \<Rightarrow> address \<Rightarrow> nat option"
  token_name :: "address \<Rightarrow> string option"
  token_symbol :: "address \<Rightarrow> string option"
  token_decimals :: "address \<Rightarrow> nat option"
  balanceOf :: "address \<Rightarrow> string \<Rightarrow> nat option"
  etherscan :: "address \<Rightarrow> axios_outcome"

text \<open>
  One entry of the response.  The profile fields \<open>spenderName\<close>, \<open>spenderDescription\<close>,
  \<open>isVerified\<close>, \<open>riskLevel\<close>, \<open>category\<close>, \<open>risks\<close>, \<open>benefits\<close>, \<open>documentation\<close>
  and \<open>audited\<close> are copied one by one from the resolved profile and are kept together
  in \<open>spenderDetails\<close>; \<open>riskScore\<close> and \<open>riskFactors\<close> are kept in \<open>riskScoring\<close>.
\<close>

record approval_result =
  tokenName :: string
  tokenSymbol :: string
  tokenAddress_text :: string
  spender_text :: string
  allowance_text :: string
  userBalance :: string
  decimals :: nat
  spenderDetails :: spender_details
  riskScoring :: risk_assessment
  exploits :: "exploit list"
  hasKnownExploit :: bool

datatype response_body = Error_body string | Approvals nat "approval_result list"

record http_response =
  status :: nat
  body :: response_body

text \<open>
  \<open>activeApprovals\<close> is a JavaScript \<open>Map\<close>: \<open>set\<close> replaces the value of a key that is
  present, leaving its position, and appends a new key at the end.
\<close>

fun Map_set :: "'k \<Rightarrow> 'v \<Rightarrow> ('k \<times> 'v) list \<Rightarrow> ('k \<times> 'v) list" where
  "Map_set k v [] = [(k, v)]"
| "Map_set k v ((k', v') # rest) =
     (if k' = k then (k, v) # rest else (k', v') # Map_set k v rest)"

definition approval_key :: "address \<Rightarrow> address \<Rightarrow> string" where
  "approval_key token spender_address =
     address_text token @ ''-'' @ address_text spender_address"

text \<open>The loop over the logs, from the map built so far.\<close>

fun collect_approvals ::
    "log_entry list \<Rightarrow> (string \<times> approval) list \<Rightarrow> (string \<times> approval) list" where
  "collect_approvals [] activeApprovals = activeApprovals"
| "collect_approvals (log # logs) activeApprovals =
     (case parsed_spender log of
        None \<Rightarrow> collect_approvals logs activeApprovals
      | Some spender_address \<Rightarrow>
          collect_approvals logs
            (Map_set (approval_key (log_address log) spender_address)
               \<lparr>tokenAddress = log_address log, spender = spender_address\<rparr> activeApprovals))"

text \<open>\<open>Array.from(activeApprovals.values())\<close>.\<close>

definition candidates :: "log_entry list \<Rightarrow> approval list" where
  "candidates logs = map snd (collect_approvals logs [])"

text \<open>The external call \<open>getSpenderDetails\<close> makes: one, when the registry has no entry.\<close>

definition getSpenderDetails_calls ::
    "(string \<rightharpoonup> db_contract) \<Rightarrow> address \<Rightarrow> external_call list" where
  "getSpenderDetails_calls registry spenderAddress =
     (case registry (toLowerCase (address_text spenderAddress)) of
        Some dbContract \<Rightarrow> []
      | None \<Rightarrow> [GetSourceCode spenderAddress])"

text \<open>
  The function mapped over the candidates: the entry it resolves to (nothing when the
  allowance is zero, and nothing when a call rejects or \<open>formatUnits\<close> throws and the
  \<open>catch\<close> returns \<open>null\<close>) and the external calls it makes.  \<open>Promise.all\<close> starts the
  four metadata calls together, so all four are made even when one of them rejects.  The
  entry is built, and the amounts formatted, after the profile has been resolved.
\<close>

definition process_approval ::
    "environment \<Rightarrow> string \<Rightarrow> approval \<Rightarrow> approval_result option \<times> external_call list" where
  "process_approval env owner candidate =
     (let token = tokenAddress candidate;
          allowance_calls = [Allowance token owner (spender candidate)];
          metadata_calls = [Name token, Symbol token, Decimals token, BalanceOf token owner]
      in case allowance env token owner (spender candidate) of
           None \<Rightarrow> (None, allowance_calls)
         | Some amount \<Rightarrow>
             if amount > 0 then
               (case token_name env token of
                  None \<Rightarrow> (None, allowance_calls @ metadata_calls)
                | Some name_text \<Rightarrow>
               (case token_symbol env token of
                  None \<Rightarrow> (None, allowance_calls @ metadata_calls)
                | Some symbol_text \<Rightarrow>
               (case token_decimals env token of
                  None \<Rightarrow> (None, allowance_calls @ metadata_calls)
                | Some digits \<Rightarrow>
               (case balanceOf env token owner of
                  None \<Rightarrow> (None, allowance_calls @ metadata_calls)
                | Some balance \<Rightarrow>
                    let details = getSpenderDetails (contractDatabase env) (etherscan env)
                                    (spender candidate);
                        found = checkForExploits (exploitDatabase env) (spender candidate);
                        scoring = calculateRiskScore details (int amount) (int balance) found;
                        calls = allowance_calls @ metadata_calls
                                  @ getSpenderDetails_calls (contractDatabase env)
                                      (spender candidate)
                    in (case formatUnits env amount digits of
                          None \<Rightarrow> (None, calls)
                        | Some amount_text \<Rightarrow>
                       (case formatUnits env balance digits of
                          None \<Rightarrow> (None, calls)
                        | Some balance_text \<Rightarrow>
                            (Some \<lparr>tokenName = name_text,
                                   tokenSymbol = symbol_text,
                                   tokenAddress_text = address_text token,
                                   spender_text = address_text (spender candidate),
                                   allowance_text = amount_text,
                                   userBalance = balance_text,
                                   decimals = digits,
                                   spenderDetails = details,
                                   riskScoring = scoring,
                                   exploits = found,
                                   hasKnownExploit = (length found > 0)\<rparr>,
                             calls)))))))
             else (None, allowance_calls))"

text \<open>\<open>.filter(Boolean)\<close> on the resolved entries.\<close>

fun filter_Boolean :: "'a option list \<Rightarrow> 'a list" where
  "filter_Boolean [] = []"
| "filter_Boolean (None # rest) = filter_Boolean rest"
| "filter_Boolean (Some x # rest) = x # filter_Boolean rest"

text \<open>
  The handler after validation.  The calls of the candidates run concurrently; the list
  of calls gives them candidate by candidate, and only which calls are in it is meant.
\<close>

definition scan_approvals :: "environment \<Rightarrow> string \<Rightarrow> http_response \<times> external_call list" where
  "scan_approvals env owner =
     (case zeroPadValue env owner of
        Inl (Thrown message) \<Rightarrow> (\<lparr>status = 500, body = Error_body message\<rparr>, [])
      | Inr addressTopic \<Rightarrow>
          (case getLogs env addressTopic of
             Inl (Thrown message) \<Rightarrow>
               (\<lparr>status = 500, body = Error_body message\<rparr>, [GetLogs addressTopic])
           | Inr logs \<Rightarrow>
               let outcomes = map (process_approval env owner) (candidates logs);
                   detailedApprovals = filter_Boolean (map fst outcomes)
               in (\<lparr>status = 200,
                    body = Approvals (length detailedApprovals) detailedApprovals\<rparr>,
                   GetLogs addressTopic # concat (map snd outcomes))))"

text \<open>
  The handler.  \<open>ethers.isAddress\<close> is false of every value that is not a string, so
  the first test rejects all of them.
\<close>

definition approvals_handler ::
    "environment \<Rightarrow> request_body \<Rightarrow> http_response \<times> external_call list" where
  "approvals_handler env req =
     (case walletAddress req of
        String owner \<Rightarrow>
          if \<not> truthy (String owner) \<or> \<not> isAddress env owner then
            (\<lparr>status = 400, body = Error_body ''Invalid Ethereum address''\<rparr>, [])
          else if truthy (chainId req) \<and> chainId req \<noteq> Number 1 then
            (\<lparr>status = 400,
              body = Error_body ''Currently only Ethereum mainnet is supported''\<rparr>, [])
          else scan_approvals env owner
      | other \<Rightarrow> (\<lparr>status = 400, body = Error_body ''Invalid Ethereum address''\<rparr>, []))"

definition approvals_of :: "http_response \<Rightarrow> approval_result list" where
  "approvals_of response =
     (case body response of Approvals n results \<Rightarrow> results | Error_body message \<Rightarrow> [])"

section \<open>Notions used in the statements\<close>

text \<open>
  The invariant of the loop over the logs: keys are distinct, and every entry sits under
  the key of its own token and spender.
\<close>

definition keyed :: "(string \<times> approval) list \<Rightarrow> bool" where
  "keyed m \<longleftrightarrow>
     distinct (map fst m) \<and>
     (\<forall>(k, c) \<in> set m. k = approval_key (tokenAddress c) (spender c))"

text \<open>The (token, spender) pairs of the logs that decode as an approval.\<close>

definition granted :: "log_entry list \<Rightarrow> approval set" where
  "granted logs =
     {\<lparr>tokenAddress = log_address l, spender = s\<rparr> | l s.
        l \<in> set logs \<and> parsed_spender l = Some s}"

text \<open>
  The handler's first test, \<open>!walletAddress || !ethers.isAddress(walletAddress)\<close>, on a
  value of the body: true of everything but a non-empty string that \<open>isAddress\<close> accepts.
\<close>

definition malformed_address :: "environment \<Rightarrow> js_value \<Rightarrow> bool" where
  "malformed_address env v =
     (case v of String owner \<Rightarrow> owner = [] \<or> \<not> isAddress env owner | other \<Rightarrow> True)"

section \<open>Inputs of the examples\<close>



definition spender_A :: address where
  "spender_A = Address ''0xAAAAAAAAAAAAAAAAAAAAAAAAAAAAAAAAAAAAAAAA''"

definition spender_B :: address where
  "spender_B = Address ''0xBBbBBBBbbBBBbbbBbbBbbbbBBbBbbbbBbBbbBBbB''"

definition token_T :: address where
  "token_T = Address ''0x1234567890AbcdEF1234567890aBcdef12345678''"

definition owner_text :: string where
  "owner_text = ''0xd8da6bf26964af9d7eed9e03e53415d37aa96045''"

text \<open>
  A wallet that accepts every request, and two replies of the verification service, both
  with HTTP status 200: the error Etherscan reports when its rate limit is reached
  (\<open>{"status":"0","message":"NOTOK","result":"Max rate limit reached"}\<close>), and the entry
  it returns for a contract whose source is not verified.
\<close>

definition accepting_wallet :: "transaction_request \<Rightarrow> string + string" where
  "accepting_wallet request = Inr ''0x9f86d081884c7d659a2feaa0c55ad015a3bf4f1b''"

definition rate_limit_reply :: axios_outcome where
  "rate_limit_reply = Response_data (Result_text ''Max rate limit reached'')"

definition unverified_reply :: axios_outcome where
  "unverified_reply =
     Response_data (Result_entries [\<lparr>ContractName = '''', SourceCode = ''''\<rparr>])"

text \<open>
  Four logs of one token: two approvals of the same spender, one of another spender, and
  one log that does not decode.
\<close>

definition test_logs :: "log_entry list" where
  "test_logs =
     [\<lparr>log_address = token_T, parsed_spender = Some spender_A\<rparr>,
      \<lparr>log_address = token_T, parsed_spender = Some spender_B\<rparr>,
      \<lparr>log_address = token_T, parsed_spender = None\<rparr>,
      \<lparr>log_address = token_T, parsed_spender = Some spender_A\<rparr>]"

text \<open>
  An environment with empty registries and a verification service that is down.  The
  allowance of \<open>spender_B\<close> has since been revoked.  Its \<open>isAddress\<close>, \<open>zeroPadValue\<close>
  and \<open>formatUnits\<close> are simple stand-ins for the ethers helpers; the token has no
  decimals.
\<close>

definition test_env :: environment where
  "test_env =
     \<lparr>contractDatabase = Map.empty,
      exploitDatabase = Map.empty,
      isAddress = (\<lambda>s. length s = 42 \<and> take 2 s = ''0x''),
      zeroPadValue = (\<lambda>s. Inr (''0x'' @ replicate 24 (CHR ''0'') @ drop 2 s)),
      formatUnits = (\<lambda>amount digits. Some (decimal amount)),
      getLogs = (\<lambda>topic. Inr test_logs),
      allowance = (\<lambda>token owner spender_address.
                     if spender_address = spender_B then Some 0 else Some 1000),
      token_name = (\<lambda>token. Some ''Test Token''),
      token_symbol = (\<lambda>token. Some ''TST''),
      token_decimals = (\<lambda>token. Some 0),
      balanceOf = (\<lambda>token owner. Some 50),
      etherscan = (\<lambda>spender_address. Request_failed ''Network Error'')\<rparr>"

definition test_request :: request_body where
  "test_request = \<lparr>walletAddress = String owner_text, chainId = Number 1\<rparr>"

text \<open>The entry the handler is expected to return for \<open>spender_A\<close> in \<open>test_env\<close>.\<close>

definition expected_result :: approval_result where
  "expected_result =
     \<lparr>tokenName = ''Test Token'',
      tokenSymbol = ''TST'',
      tokenAddress_text = ''0x1234567890AbcdEF1234567890aBcdef12345678'',
      spender_text = ''0xAAAAAAAAAAAAAAAAAAAAAAAAAAAAAAAAAAAAAAAA'',
      allowance_text = ''1000'',
      userBalance = ''50'',
      decimals = 0,
      spenderDetails = default_details spender_A,
      riskScoring =
        \<lparr>score = Finite 85,
         factors =
           [\<lparr>factor_name = ''Audit Status'', factor_value = ''Not Audited'',
             contribution = Points 25\<rparr>,
            \<lparr>factor_name = ''Category'', factor_value = ''Unknown'', contribution = Points 25\<rparr>,
            \<lparr>factor_name = ''Risk Level'', factor_value = ''high'', contribution = Points 20\<rparr>,
            \<lparr>factor_name = ''Allowance'', factor_value = ''Very High (>10x balance)'',
             contribution = Points 15\<rparr>,
            \<lparr>factor_name = ''Known Exploits'', factor_value = ''None'',
             contribution = Points 0\<rparr>]\<rparr>,
      exploits = [],
      hasKnownExploit = False\<rparr>"

definition test_calls :: "external_call list" where
  "test_calls =
     [GetLogs ''0x000000000000000000000000d8da6bf26964af9d7eed9e03e53415d37aa96045'',
      Allowance token_T owner_text spender_A, Name token_T, Symbol token_T,
      Decimals token_T, BalanceOf token_T owner_text, GetSourceCode spender_A,
      Allowance token_T owner_text spender_B]"

section \<open>Properties of the risk scoring engine\<close>






text \<open>
  C1.  Scenario A of the specification: an audited DEX spender declared low risk, an
  allowance of exactly \<open>2^256 - 1\<close> and no exploits.  The specification expects the
  contributions \<open>[0, 4, 0, 20, 0]\<close> and the score 24.  The code reads the declared level
  with \<open>riskLevelMap[...] || 15\<close>; the table's entry for \<open>low\<close> is the number 0, which is
  falsy, so the fallback 15 is taken: the contributions are \<open>[0, 4, 15, 20, 0]\<close> and the
  score is 39, whatever the other fields of the profile and the balance are.
\<close>

theorem scenario_A_scores_39:
  "map contribution (factors (calculateRiskScore
       (d\<lparr>audited := True, category := ''DEX'', riskLevel := ''low''\<rparr>) maxUint256 b [])) =
     [Points 0, Points 4, Points 15, Points 20, Points 0] \<and>
   score (calculateRiskScore
       (d\<lparr>audited := True, category := ''DEX'', riskLevel := ''low''\<rparr>) maxUint256 b []) =
     Finite 39"
  by (simp add: calculateRiskScore_def audit_factor_def category_factor_def
      risk_level_factor_def allowance_factor_def exploit_factor_def get_property_def
      or_default_def categoryRiskMap_def riskLevelMap_def object_prototype_members_def)

text \<open>
  C2.  The declared-risk-level factor is the third entry of the factor list.  For every
  profile, allowance, balance and exploit list it contributes 15 points when the level is
  \<open>low\<close> (the specification says 0), 10 when \<open>medium\<close>, 20 when \<open>high\<close> and 15 when
  \<open>unknown\<close>.
\<close>

theorem risk_level_low_contributes_15:
  "contribution (factors (calculateRiskScore (d\<lparr>riskLevel := ''low''\<rparr>) a b e) ! 2) = Points 15 \<and>
   contribution (factors (calculateRiskScore (d\<lparr>riskLevel := ''medium''\<rparr>) a b e) ! 2) = Points 10 \<and>
   contribution (factors (calculateRiskScore (d\<lparr>riskLevel := ''high''\<rparr>) a b e) ! 2) = Points 20 \<and>
   contribution (factors (calculateRiskScore (d\<lparr>riskLevel := ''unknown''\<rparr>) a b e) ! 2) = Points 15"
  by (simp add: calculateRiskScore_def risk_level_factor_def get_property_def or_default_def
      riskLevelMap_def object_prototype_members_def)






text \<open>
  Outside the data model, a category that names a member of \<open>Object.prototype\<close> makes
  the table read return a built-in function; the sum turns into a string and
  \<open>Math.min\<close> returns NaN.  No caller of \<open>calculateRiskScore\<close> passes such a category
  unless the curated registry contains it.
\<close>

lemma inherited_category_is_not_a_number:
  "score (calculateRiskScore
      \<lparr>name = ''Router'', description = '''', isVerified = True, riskLevel = ''medium'',
       category = ''constructor'', risks = [], benefits = [], documentation = '''',
       audited = True\<rparr> 1 1 []) = NaN"
  by (simp add: calculateRiskScore_def audit_factor_def category_factor_def
      risk_level_factor_def allowance_factor_def exploit_factor_def get_property_def
      or_default_def categoryRiskMap_def riskLevelMap_def object_prototype_members_def
      maxUint256_def)

section \<open>Properties of the revocation request builder\<close>

lemma concat_replicate_single: "concat (replicate n [c]) = replicate n c"
  by (induction n) simp_all

lemma padStart_char: "padStart n [c] s = replicate (n - length s) c @ s"
  by (simp add: padStart_def concat_replicate_single)

lemma zeros_64: "padStart 64 ''0'' ''0'' = replicate 64 (CHR ''0'')"
  by code_simp

lemma revoke_data_address:
  assumes "length spenderAddress = 42"
  shows "revoke_data spenderAddress =
           ''0x095ea7b3'' @ replicate 24 (CHR ''0'') @ drop 2 spenderAddress
             @ replicate 64 (CHR ''0'')"
proof -
  have "padStart 64 ''0'' (drop 2 spenderAddress) =
          replicate 24 (CHR ''0'') @ drop 2 spenderAddress"
    using assms by (simp only: padStart_char length_drop) simp
  then show ?thesis
    by (simp only: revoke_data_def zeros_64 append_assoc)
qed

lemma revoke_data_example:
  "revoke_data ''0xAAAAAAAAAAAAAAAAAAAAAAAAAAAAAAAAAAAAAAAA'' =
     ''0x095ea7b3000000000000000000000000AAAAAAAAAAAAAAAAAAAAAAAAAAAAAAAAAAAAAAAA0000000000000000000000000000000000000000000000000000000000000000''"
  by code_simp

lemma requests_data:
  "r \<in> set (requests (revokeApproval wallet connectedAddress token spenderAddress
                        owner))
   \<Longrightarrow> tx_data r = revoke_data spenderAddress"
  by (auto simp add: revokeApproval_def Let_def split: option.splits if_splits sum.splits)

lemma revoke_example:
  "revokeApproval accepting_wallet (Some ''0xd8da6bf26964af9d7eed9e03e53415d37aa96045'')
     ''0x1234567890AbcdEF1234567890aBcdef12345678''
     ''0xAAAAAAAAAAAAAAAAAAAAAAAAAAAAAAAAAAAAAAAA''
     ''0xd8dA6BF26964aF9D7eEd9e03E53415D37aA96045'' =
   \<lparr>messages = [(''Preparing revoke transaction...'', ''success''),
                (''Transaction sent: 0x9f86d081...'', ''success'')],
    requests =
      [\<lparr>tx_from = ''0xd8da6bf26964af9d7eed9e03e53415d37aa96045'',
        tx_to = ''0x1234567890AbcdEF1234567890aBcdef12345678'',
        tx_data = ''0x095ea7b3000000000000000000000000AAAAAAAAAAAAAAAAAAAAAAAAAAAAAAAAAAAAAAAA0000000000000000000000000000000000000000000000000000000000000000''\<rparr>]\<rparr>"
  by code_simp

text \<open>
  C4.  The calldata is a hexadecimal text, two digits to the byte.  Every request that
  \<open>revokeApproval\<close> hands to the wallet for a spender address (\<open>0x\<close> and 40 digits, 42
  characters) carries the selector \<open>0x095ea7b3\<close>, then 24 zeros and the 40 digits of
  the spender (the address left-padded to 32 bytes), then 64 zeros (32 zero bytes); and
  for the spender \<open>0xAAAA...AAAA\<close> it is exactly the text below.
\<close>

theorem revocation_calldata:
  "(\<forall>r \<in> set (requests (revokeApproval wallet connectedAddress token spenderAddress
                           owner)).
      length spenderAddress = 42 \<longrightarrow>
      tx_data r = ''0x095ea7b3'' @ replicate 24 (CHR ''0'') @ drop 2 spenderAddress
                    @ replicate 64 (CHR ''0'') \<and>
      length (tx_data r) = 10 + 64 + 64) \<and>
   (\<forall>r \<in> set (requests (revokeApproval wallet connectedAddress token
                           ''0xAAAAAAAAAAAAAAAAAAAAAAAAAAAAAAAAAAAAAAAA'' owner)).
      tx_data r =
        ''0x095ea7b3000000000000000000000000AAAAAAAAAAAAAAAAAAAAAAAAAAAAAAAAAAAAAAAA0000000000000000000000000000000000000000000000000000000000000000'')"
proof (intro conjI ballI impI)
  fix r
  assume r: "r \<in> set (requests (revokeApproval wallet connectedAddress token
                                  spenderAddress owner))"
    and len: "length spenderAddress = 42"
  show d: "tx_data r = ''0x095ea7b3'' @ replicate 24 (CHR ''0'') @ drop 2 spenderAddress
                         @ replicate 64 (CHR ''0'')"
    using requests_data [OF r] revoke_data_address [OF len] by simp
  show "length (tx_data r) = 10 + 64 + 64"
    unfolding d using len by simp
next
  fix r
  assume "r \<in> set (requests (revokeApproval wallet connectedAddress token
                               ''0xAAAAAAAAAAAAAAAAAAAAAAAAAAAAAAAAAAAAAAAA'' owner))"
  then show "tx_data r =
    ''0x095ea7b3000000000000000000000000AAAAAAAAAAAAAAAAAAAAAAAAAAAAAAAAAAAAAAAA0000000000000000000000000000000000000000000000000000000000000000''"
    using requests_data revoke_data_example by simp
qed

text \<open>The owner, connected, revokes the approval of \<open>0xAAAA...AAAA\<close> on one token.\<close>

theorem revocation_calldata_witness:
  "requests (revokeApproval accepting_wallet
       (Some ''0xd8da6bf26964af9d7eed9e03e53415d37aa96045'')
       ''0x1234567890AbcdEF1234567890aBcdef12345678''
       ''0xAAAAAAAAAAAAAAAAAAAAAAAAAAAAAAAAAAAAAAAA''
       ''0xd8dA6BF26964aF9D7eEd9e03E53415D37aA96045'') \<noteq> [] \<and>
   length ''0xAAAAAAAAAAAAAAAAAAAAAAAAAAAAAAAAAAAAAAAA'' = 42 \<and>
   map tx_data (requests (revokeApproval accepting_wallet
       (Some ''0xd8da6bf26964af9d7eed9e03e53415d37aa96045'')
       ''0x1234567890AbcdEF1234567890aBcdef12345678''
       ''0xAAAAAAAAAAAAAAAAAAAAAAAAAAAAAAAAAAAAAAAA''
       ''0xd8dA6BF26964aF9D7eEd9e03E53415D37aA96045'')) =
     [''0x095ea7b3'' @ replicate 24 (CHR ''0'') @ ''AAAAAAAAAAAAAAAAAAAAAAAAAAAAAAAAAAAAAAAA''
        @ replicate 64 (CHR ''0'')]"
  using revocation_calldata [of accepting_wallet
      "Some ''0xd8da6bf26964af9d7eed9e03e53415d37aa96045''"
      "''0x1234567890AbcdEF1234567890aBcdef12345678''"
      "''0xAAAAAAAAAAAAAAAAAAAAAAAAAAAAAAAAAAAAAAAA''"
      "''0xd8dA6BF26964aF9D7eEd9e03E53415D37aA96045''"]
  by (simp add: revoke_example)

text \<open>
  C9.  The caller is the connected wallet account, the owner is the address
  the approvals were listed for; two texts are the same address when they are equal up
  to the case of their hexadecimal digits.  When the caller differs from the owner,
  \<open>revokeApproval\<close> shows one error message and hands nothing to the wallet; and whenever
  it hands a request to the wallet, an account is connected, it is the owner's address,
  and the request is the single one built for that account.
\<close>

theorem revoke_only_by_owner:
  "(toLowerCase caller \<noteq> toLowerCase owner \<longrightarrow>
      requests (revokeApproval wallet (Some caller) token spenderAddress
                  owner) = [] \<and>
      (\<exists>text. messages (revokeApproval wallet (Some caller) token spenderAddress
                          owner) = [(text, ''error'')])) \<and>
   (requests (revokeApproval wallet connectedAddress token spenderAddress
                owner) \<noteq> [] \<longrightarrow>
      (\<exists>connected.
         connectedAddress = Some connected \<and>
         toLowerCase connected = toLowerCase owner \<and>
         requests (revokeApproval wallet connectedAddress token spenderAddress
                     owner) =
           [\<lparr>tx_from = connected, tx_to = token,
             tx_data = revoke_data spenderAddress\<rparr>]))"
  by (auto simp add: revokeApproval_def Let_def split: option.splits if_splits sum.splits)

text \<open>
  Another account tries to revoke the owner's approval and is refused; the owner's own
  request goes through.
\<close>

theorem revoke_only_by_owner_witness:
  "toLowerCase ''0x1111111111111111111111111111111111111111'' \<noteq>
     toLowerCase ''0xd8dA6BF26964aF9D7eEd9e03E53415D37aA96045'' \<and>
   revokeApproval accepting_wallet (Some ''0x1111111111111111111111111111111111111111'')
     ''0x1234567890AbcdEF1234567890aBcdef12345678''
     ''0xAAAAAAAAAAAAAAAAAAAAAAAAAAAAAAAAAAAAAAAA''
     ''0xd8dA6BF26964aF9D7eEd9e03E53415D37aA96045'' =
     \<lparr>messages = [(''Connected wallet does not match the approval owner'', ''error'')],
      requests = []\<rparr> \<and>
   requests (revokeApproval accepting_wallet
       (Some ''0xd8da6bf26964af9d7eed9e03e53415d37aa96045'')
       ''0x1234567890AbcdEF1234567890aBcdef12345678''
       ''0xAAAAAAAAAAAAAAAAAAAAAAAAAAAAAAAAAAAAAAAA''
       ''0xd8dA6BF26964aF9D7eEd9e03E53415D37aA96045'') \<noteq> [] \<and>
   toLowerCase ''0xd8da6bf26964af9d7eed9e03e53415d37aa96045'' =
     toLowerCase ''0xd8dA6BF26964aF9D7eEd9e03E53415D37aA96045''"
proof -
  have differ: "toLowerCase ''0x1111111111111111111111111111111111111111'' \<noteq>
                toLowerCase ''0xd8dA6BF26964aF9D7eEd9e03E53415D37aA96045''"
    by code_simp
  have refused:
    "revokeApproval accepting_wallet (Some ''0x1111111111111111111111111111111111111111'')
       ''0x1234567890AbcdEF1234567890aBcdef12345678''
       ''0xAAAAAAAAAAAAAAAAAAAAAAAAAAAAAAAAAAAAAAAA''
       ''0xd8dA6BF26964aF9D7eEd9e03E53415D37aA96045'' =
     \<lparr>messages = [(''Connected wallet does not match the approval owner'', ''error'')],
      requests = []\<rparr>"
    by code_simp
  have same: "toLowerCase ''0xd8da6bf26964af9d7eed9e03e53415d37aa96045'' =
              toLowerCase ''0xd8dA6BF26964aF9D7eEd9e03E53415D37aA96045''"
    by code_simp
  from differ refused same
    revoke_only_by_owner [of "''0x1111111111111111111111111111111111111111''"
      "''0xd8dA6BF26964aF9D7eEd9e03E53415D37aA96045''" accepting_wallet
      "''0x1234567890AbcdEF1234567890aBcdef12345678''"
      "''0xAAAAAAAAAAAAAAAAAAAAAAAAAAAAAAAAAAAAAAAA''"
      "Some ''0xd8da6bf26964af9d7eed9e03e53415d37aa96045''"]
  show ?thesis by (simp add: revoke_example)
qed

section \<open>Properties of the spender profile resolver\<close>

lemma address_text_length: "length (address_text a) = 42"
  using address_text [of a] by simp

lemma address_text_prefix: "take 2 (address_text a) = ''0x''"
  using address_text [of a] by simp

lemma lower_char_zero: "lower_char (CHR ''0'') = CHR ''0''"
  by (simp add: lower_char_def)

text \<open>A registry key is never the name of a member of \<open>Object.prototype\<close>.\<close>

lemma address_key_not_inherited:
  "toLowerCase (address_text a) \<notin> set object_prototype_members"
proof -
  obtain c cs where s: "address_text a = c # cs"
    using address_text_length [of a] by (cases "address_text a") auto
  with address_text_prefix [of a] have "c = CHR ''0''" by simp
  with s have "toLowerCase (address_text a) = CHR ''0'' # map lower_char cs"
    by (simp add: toLowerCase_def lower_char_zero)
  then show ?thesis by (simp add: object_prototype_members_def)
qed

lemma spender_A_text: "address_text spender_A = ''0xAAAAAAAAAAAAAAAAAAAAAAAAAAAAAAAAAAAAAAAA''"
  by (simp add: spender_A_def Address_inverse)

lemma spender_B_text: "address_text spender_B = ''0xBBbBBBBbbBBBbbbBbbBbbbbBBbBbbbbBbBbbBBbB''"
  by (simp add: spender_B_def Address_inverse)

lemma token_T_text: "address_text token_T = ''0x1234567890AbcdEF1234567890aBcdef12345678''"
  by (simp add: token_T_def Address_inverse)

lemma test_addresses_differ: "spender_A \<noteq> spender_B" "spender_B \<noteq> spender_A"
  by (simp_all add: address_text_inject [symmetric] spender_A_text spender_B_text)

text \<open>
  When the body of the resolver throws (the request to the verification service is
  rejected, or its response has no body to read), or runs to its end because the result
  is missing or empty, and the local registry has no entry, the resolver returns the
  pessimistic default profile: name \<open>Unknown Contract\<close>, risk level \<open>high\<close>, category
  \<open>Unknown\<close>, neither verified nor audited.
\<close>

lemma thrown_failure_gives_default:
  assumes "registry (toLowerCase (address_text spenderAddress)) = None"
    and "service spenderAddress = Request_failed message \<or>
         service spenderAddress = Response_without_data \<or>
         (\<exists>result. service spenderAddress = Response_data result \<and>
                   first_result result = None)"
  shows "getSpenderDetails registry service spenderAddress = default_details spenderAddress \<and>
         name (getSpenderDetails registry service spenderAddress) = ''Unknown Contract'' \<and>
         riskLevel (getSpenderDetails registry service spenderAddress) = ''high'' \<and>
         category (getSpenderDetails registry service spenderAddress) = ''Unknown'' \<and>
         \<not> isVerified (getSpenderDetails registry service spenderAddress) \<and>
         \<not> audited (getSpenderDetails registry service spenderAddress)"
  using assms
  by (auto simp add: getSpenderDetails_def getSpenderDetails_try_def default_details_def)

lemma network_error_gives_default:
  "getSpenderDetails Map.empty (\<lambda>a. Request_failed ''Network Error'') spender_A =
     \<lparr>name = ''Unknown Contract'',
      description = ''This contract can transfer your tokens.'',
      isVerified = False,
      riskLevel = ''high'',
      category = ''Unknown'',
      risks = [''Could be a scam or malicious contract'', ''No audit information available''],
      benefits = [],
      documentation =
        ''https://etherscan.io/address/0xAAAAAAAAAAAAAAAAAAAAAAAAAAAAAAAAAAAAAAAA'',
      audited = False\<rparr>"
  using thrown_failure_gives_default
    [of Map.empty spender_A "\<lambda>a. Request_failed ''Network Error''" "''Network Error''"]
  by (simp add: default_details_def spender_A_text)

text \<open>
  C5.  The claim: for every spender address without an entry in the local registry, when
  the call to the verification service fails, the resolver returns the pessimistic
  default profile (name \<open>Unknown Contract\<close>, risk level \<open>high\<close>, category \<open>Unknown\<close>,
  neither verified nor audited).  The code does so when the request throws, as above.
  It does not when the service reports its failure in a response with HTTP status 200:
  Etherscan then puts an error text in \<open>result\<close>, the text is truthy, \<open>result[0]\<close> is
  its first character, and the resolver returns the synthesized profile with risk level
  \<open>unknown\<close> and category \<open>Other\<close>, which is not the default.
\<close>

theorem service_error_text_is_not_default:
  "getSpenderDetails_try Map.empty (\<lambda>a. rate_limit_reply) spender_A =
     Inr (Some
       \<lparr>name = ''Unknown Contract'',
        description = ''This contract can transfer your tokens.'',
        isVerified = False,
        riskLevel = ''unknown'',
        category = ''Other'',
        risks = [''Verify contract details before approving''],
        benefits = [],
        documentation =
          ''https://etherscan.io/address/0xAAAAAAAAAAAAAAAAAAAAAAAAAAAAAAAAAAAAAAAA'',
        audited = False\<rparr>) \<and>
   riskLevel (getSpenderDetails Map.empty (\<lambda>a. rate_limit_reply) spender_A) = ''unknown'' \<and>
   category (getSpenderDetails Map.empty (\<lambda>a. rate_limit_reply) spender_A) = ''Other'' \<and>
   riskLevel (default_details spender_A) = ''high'' \<and>
   category (default_details spender_A) = ''Unknown'' \<and>
   getSpenderDetails Map.empty (\<lambda>a. rate_limit_reply) spender_A \<noteq> default_details spender_A"
proof -
  have body: "getSpenderDetails_try Map.empty (\<lambda>a. rate_limit_reply) spender_A =
     Inr (Some
       \<lparr>name = ''Unknown Contract'',
        description = ''This contract can transfer your tokens.'',
        isVerified = False,
        riskLevel = ''unknown'',
        category = ''Other'',
        risks = [''Verify contract details before approving''],
        benefits = [],
        documentation =
          ''https://etherscan.io/address/0xAAAAAAAAAAAAAAAAAAAAAAAAAAAAAAAAAAAAAAAA'',
        audited = False\<rparr>)"
    by (simp add: getSpenderDetails_try_def rate_limit_reply_def spender_A_text
        getApprovalDescription_def descriptions_def Let_def)
  have level: "riskLevel (getSpenderDetails Map.empty (\<lambda>a. rate_limit_reply) spender_A) =
                 ''unknown''"
    and kind: "category (getSpenderDetails Map.empty (\<lambda>a. rate_limit_reply) spender_A) =
                 ''Other''"
    by (simp_all add: getSpenderDetails_def body)
  have default: "riskLevel (default_details spender_A) = ''high''"
    "category (default_details spender_A) = ''Unknown''"
    by (simp_all add: default_details_def)
  from level default(1)
  have "getSpenderDetails Map.empty (\<lambda>a. rate_limit_reply) spender_A \<noteq>
          default_details spender_A"
    by auto
  with body level kind default show ?thesis by simp
qed

text \<open>
  C10.  For a spender address without an entry in the local registry, when the
  verification service answers and the first entry of its result has no contract name,
  the resolver returns a synthesized profile named \<open>Unknown Contract\<close> with risk level
  \<open>unknown\<close> and category \<open>Other\<close>.  It is not the pessimistic default, which has the
  same name but risk level \<open>high\<close> and category \<open>Unknown\<close>, and which the same registry
  yields when the service fails.
\<close>

theorem unnamed_contract_profile:
  assumes "registry (toLowerCase (address_text spenderAddress)) = None"
    and "service spenderAddress = Response_data result"
    and "first_result result = Some contract"
    and "ContractName contract = []"
  shows "name (getSpenderDetails registry service spenderAddress) = ''Unknown Contract'' \<and>
         riskLevel (getSpenderDetails registry service spenderAddress) = ''unknown'' \<and>
         category (getSpenderDetails registry service spenderAddress) = ''Other'' \<and>
         name (default_details spenderAddress) = ''Unknown Contract'' \<and>
         riskLevel (default_details spenderAddress) = ''high'' \<and>
         category (default_details spenderAddress) = ''Unknown'' \<and>
         getSpenderDetails registry service spenderAddress \<noteq> default_details spenderAddress \<and>
         getSpenderDetails registry (\<lambda>a. Request_failed message) spenderAddress =
           default_details spenderAddress"
proof -
  have "riskLevel (getSpenderDetails registry service spenderAddress) = ''unknown''"
    using assms by (simp add: getSpenderDetails_def getSpenderDetails_try_def Let_def)
  moreover have "riskLevel (default_details spenderAddress) = ''high''"
    by (simp add: default_details_def)
  ultimately have "getSpenderDetails registry service spenderAddress \<noteq>
                   default_details spenderAddress"
    by auto
  then show ?thesis
    using assms
    by (simp add: getSpenderDetails_def getSpenderDetails_try_def default_details_def Let_def)
qed

text \<open>The reply Etherscan gives for a contract whose source is not verified.\<close>

theorem unnamed_contract_profile_witness:
  "Map.empty (toLowerCase (address_text spender_A)) = (None :: db_contract option) \<and>
   (\<lambda>a. unverified_reply) spender_A =
     Response_data (Result_entries [\<lparr>ContractName = '''', SourceCode = ''''\<rparr>]) \<and>
   first_result (Result_entries [\<lparr>ContractName = '''', SourceCode = ''''\<rparr>]) =
     Some \<lparr>ContractName = '''', SourceCode = ''''\<rparr> \<and>
   ContractName \<lparr>ContractName = '''', SourceCode = ''''\<rparr> = [] \<and>
   getSpenderDetails Map.empty (\<lambda>a. unverified_reply) spender_A =
     \<lparr>name = ''Unknown Contract'',
      description = ''This contract can transfer your tokens.'',
      isVerified = False,
      riskLevel = ''unknown'',
      category = ''Other'',
      risks = [''Verify contract details before approving''],
      benefits = [],
      documentation =
        ''https://etherscan.io/address/0xAAAAAAAAAAAAAAAAAAAAAAAAAAAAAAAAAAAAAAAA'',
      audited = False\<rparr> \<and>
   getSpenderDetails Map.empty (\<lambda>a. unverified_reply) spender_A \<noteq> default_details spender_A"
proof -
  have profile: "getSpenderDetails Map.empty (\<lambda>a. unverified_reply) spender_A =
     \<lparr>name = ''Unknown Contract'',
      description = ''This contract can transfer your tokens.'',
      isVerified = False,
      riskLevel = ''unknown'',
      category = ''Other'',
      risks = [''Verify contract details before approving''],
      benefits = [],
      documentation =
        ''https://etherscan.io/address/0xAAAAAAAAAAAAAAAAAAAAAAAAAAAAAAAAAAAAAAAA'',
      audited = False\<rparr>"
    by (simp add: getSpenderDetails_def getSpenderDetails_try_def unverified_reply_def
        spender_A_text getApprovalDescription_def descriptions_def Let_def)
  have "getSpenderDetails Map.empty (\<lambda>a. unverified_reply) spender_A \<noteq>
          default_details spender_A"
    using unnamed_contract_profile
      [of Map.empty spender_A "\<lambda>a. unverified_reply"
          "Result_entries [\<lparr>ContractName = '''', SourceCode = ''''\<rparr>]"
          "\<lparr>ContractName = '''', SourceCode = ''''\<rparr>"]
    by (simp add: unverified_reply_def)
  with profile show ?thesis by (simp add: unverified_reply_def)
qed

section \<open>Properties of approval discovery\<close>

subsection \<open>Deduplication of the logs\<close>

lemma approval_key_inject:
  "approval_key t s = approval_key t' s' \<longleftrightarrow> t = t' \<and> s = s'"
proof -
  have "length (address_text t) = length (address_text t')"
    by (simp add: address_text_length)
  then show ?thesis
    by (simp add: approval_key_def address_text_inject)
qed

lemma Map_set_present:
  "distinct (map fst m) \<Longrightarrow> (k, v) \<in> set m \<Longrightarrow> Map_set k v m = m"
  by (induction m) (auto simp add: rev_image_eqI)

lemma Map_set_absent:
  "k \<notin> fst ` set m \<Longrightarrow> Map_set k v m = m @ [(k, v)]"
  by (induction m) auto

lemma keyed_fresh_key:
  assumes "keyed m" and "\<lparr>tokenAddress = t, spender = s\<rparr> \<notin> snd ` set m"
  shows "approval_key t s \<notin> fst ` set m"
proof
  assume "approval_key t s \<in> fst ` set m"
  then obtain c where c: "(approval_key t s, c) \<in> set m" by auto
  with assms(1) have "approval_key t s = approval_key (tokenAddress c) (spender c)"
    by (auto simp add: keyed_def)
  then have "c = \<lparr>tokenAddress = t, spender = s\<rparr>"
    by (simp add: approval_key_inject)
  with c assms(2) show False by (force simp add: image_iff)
qed

text \<open>Under the invariant, setting a pair that is present changes nothing.\<close>

lemma keyed_Map_set:
  assumes "keyed m"
  shows "Map_set (approval_key t s) \<lparr>tokenAddress = t, spender = s\<rparr> m =
           (if \<lparr>tokenAddress = t, spender = s\<rparr> \<in> snd ` set m then m
            else m @ [(approval_key t s, \<lparr>tokenAddress = t, spender = s\<rparr>)])"
proof (cases "\<lparr>tokenAddress = t, spender = s\<rparr> \<in> snd ` set m")
  case True
  then obtain k where "(k, \<lparr>tokenAddress = t, spender = s\<rparr>) \<in> set m" by auto
  moreover from this assms have "k = approval_key t s" by (auto simp add: keyed_def)
  ultimately show ?thesis using assms True by (simp add: Map_set_present keyed_def)
next
  case False
  with keyed_fresh_key [OF assms] show ?thesis by (simp add: Map_set_absent)
qed

lemma keyed_extend:
  assumes "keyed m"
  shows "keyed (Map_set (approval_key t s) \<lparr>tokenAddress = t, spender = s\<rparr> m)"
proof (cases "\<lparr>tokenAddress = t, spender = s\<rparr> \<in> snd ` set m")
  case True
  then show ?thesis using assms by (simp add: keyed_Map_set)
next
  case False
  with keyed_fresh_key [OF assms False] assms show ?thesis
    by (auto simp add: keyed_Map_set keyed_def)
qed

lemma collect_approvals_keyed:
  "keyed m \<Longrightarrow> keyed (collect_approvals logs m)"
  by (induction logs arbitrary: m) (auto simp add: keyed_extend split: option.splits)

lemma collect_approvals_values:
  "keyed m \<Longrightarrow> snd ` set (collect_approvals logs m) = snd ` set m \<union> granted logs"
proof (induction logs arbitrary: m)
  case Nil
  then show ?case by (simp add: granted_def)
next
  case (Cons l logs)
  show ?case
  proof (cases "parsed_spender l")
    case None
    then have "granted (l # logs) = granted logs" by (auto simp add: granted_def)
    with None Cons show ?thesis by simp
  next
    case (Some s)
    let ?c = "\<lparr>tokenAddress = log_address l, spender = s\<rparr>"
    let ?m = "Map_set (approval_key (log_address l) s) ?c m"
    have g: "granted (l # logs) = insert ?c (granted logs)"
      using Some by (auto simp add: granted_def)
    have "snd ` set ?m = insert ?c (snd ` set m)"
      using Cons.prems by (auto simp add: keyed_Map_set)
    moreover have "snd ` set (collect_approvals logs ?m) = snd ` set ?m \<union> granted logs"
      using Cons.IH [OF keyed_extend [OF Cons.prems]] .
    ultimately show ?thesis using Some g by simp
  qed
qed

lemma keyed_distinct_values:
  assumes "keyed m"
  shows "distinct (map snd m)"
proof -
  have "inj_on snd (set m)"
  proof (rule inj_onI)
    fix p q assume "p \<in> set m" "q \<in> set m" "snd p = snd q"
    moreover from \<open>p \<in> set m\<close> assms
    have "fst p = approval_key (tokenAddress (snd p)) (spender (snd p))"
      by (cases p) (auto simp add: keyed_def)
    moreover from \<open>q \<in> set m\<close> assms
    have "fst q = approval_key (tokenAddress (snd q)) (spender (snd q))"
      by (cases q) (auto simp add: keyed_def)
    ultimately show "p = q" by (simp add: prod_eq_iff)
  qed
  moreover have "distinct m" using assms by (simp add: keyed_def distinct_map)
  ultimately show ?thesis by (simp add: distinct_map)
qed

lemma candidates_distinct: "distinct (candidates logs)"
  unfolding candidates_def
  by (rule keyed_distinct_values, rule collect_approvals_keyed) (simp add: keyed_def)

lemma candidates_set: "set (candidates logs) = granted logs"
  using collect_approvals_values [of "[]" logs] by (simp add: candidates_def keyed_def)

lemma filter_pair:
  "filter (\<lambda>c. tokenAddress c = t \<and> spender c = s) cs =
   filter (\<lambda>c. c = \<lparr>tokenAddress = t, spender = s\<rparr>) cs"
  by (rule filter_cong) auto

lemma test_candidates:
  "candidates test_logs =
     [\<lparr>tokenAddress = token_T, spender = spender_A\<rparr>,
      \<lparr>tokenAddress = token_T, spender = spender_B\<rparr>]"
  by (simp add: candidates_def test_logs_def approval_key_def spender_A_text spender_B_text
      token_T_text)

text \<open>
  C7.  For every sequence of logs, the candidates are pairwise different, they are
  exactly the (token, spender) pairs of the logs that decode as an approval, and every
  such log, however many logs share its pair, has exactly one candidate with its token
  and spender.
\<close>

theorem one_candidate_per_pair:
  "distinct (candidates logs) \<and>
   set (candidates logs) = granted logs \<and>
   (\<forall>entry \<in> set logs. \<forall>s. parsed_spender entry = Some s \<longrightarrow>
      length (filter (\<lambda>c. tokenAddress c = log_address entry \<and> spender c = s)
                (candidates logs)) = 1)"
proof (intro conjI ballI allI impI)
  show "distinct (candidates logs)" by (rule candidates_distinct)
next
  show "set (candidates logs) = granted logs" by (rule candidates_set)
next
  fix entry s
  assume "entry \<in> set logs" "parsed_spender entry = Some s"
  then have "\<lparr>tokenAddress = log_address entry, spender = s\<rparr> \<in> set (candidates logs)"
    by (auto simp add: candidates_set granted_def)
  then show "length (filter (\<lambda>c. tokenAddress c = log_address entry \<and> spender c = s)
                (candidates logs)) = 1"
    using candidates_distinct [of logs]
    by (simp add: filter_pair distinct_length_filter)
qed

text \<open>Two of the four test logs grant the same pair; it is one candidate.\<close>

theorem one_candidate_per_pair_witness:
  "\<lparr>log_address = token_T, parsed_spender = Some spender_A\<rparr> \<in> set test_logs \<and>
   parsed_spender \<lparr>log_address = token_T, parsed_spender = Some spender_A\<rparr> =
     Some spender_A \<and>
   length (filter (\<lambda>entry. log_address entry = token_T \<and>
                           parsed_spender entry = Some spender_A) test_logs) = 2 \<and>
   candidates test_logs =
     [\<lparr>tokenAddress = token_T, spender = spender_A\<rparr>,
      \<lparr>tokenAddress = token_T, spender = spender_B\<rparr>] \<and>
   length (filter (\<lambda>c. tokenAddress c = token_T \<and> spender c = spender_A)
             (candidates test_logs)) = 1"
proof -
  have member: "\<lparr>log_address = token_T, parsed_spender = Some spender_A\<rparr> \<in> set test_logs"
    by (simp add: test_logs_def)
  have twice: "length (filter (\<lambda>entry. log_address entry = token_T \<and>
                           parsed_spender entry = Some spender_A) test_logs) = 2"
    by (simp add: test_logs_def test_addresses_differ)
  from one_candidate_per_pair [of test_logs] member
  have "length (filter (\<lambda>c. tokenAddress c = token_T \<and> spender c = spender_A)
             (candidates test_logs)) = 1"
    by fastforce
  with member twice test_candidates show ?thesis by simp
qed

subsection \<open>The handler on the test environment\<close>

lemma owner_topic:
  "zeroPadValue test_env owner_text =
     Inr ''0x000000000000000000000000d8da6bf26964af9d7eed9e03e53415d37aa96045''"
  by (simp add: test_env_def owner_text_def numeral_eq_Suc)

lemma test_spender_A:
  "process_approval test_env owner_text \<lparr>tokenAddress = token_T, spender = spender_A\<rparr> =
     (Some expected_result,
      [Allowance token_T owner_text spender_A, Name token_T, Symbol token_T,
       Decimals token_T, BalanceOf token_T owner_text, GetSourceCode spender_A])"
  by (simp add: process_approval_def test_env_def test_addresses_differ Let_def
      getSpenderDetails_def getSpenderDetails_try_def getSpenderDetails_calls_def
      checkForExploits_def default_details_def spender_A_text token_T_text expected_result_def
      calculateRiskScore_def audit_factor_def category_factor_def risk_level_factor_def
      allowance_factor_def exploit_factor_def get_property_def or_default_def
      categoryRiskMap_def riskLevelMap_def object_prototype_members_def maxUint256_def
      decimal.simps)

lemma test_spender_B:
  "process_approval test_env owner_text \<lparr>tokenAddress = token_T, spender = spender_B\<rparr> =
     (None, [Allowance token_T owner_text spender_B])"
  by (simp add: process_approval_def test_env_def)

lemma test_isAddress: "isAddress test_env owner_text"
  by (simp add: test_env_def owner_text_def)

lemma test_getLogs: "getLogs test_env topic = Inr test_logs"
  by (simp add: test_env_def)

lemma test_scan:
  "scan_approvals test_env owner_text =
     (\<lparr>status = 200, body = Approvals 1 [expected_result]\<rparr>, test_calls)"
  by (simp add: scan_approvals_def owner_topic test_getLogs test_candidates test_spender_A
      test_spender_B test_calls_def Let_def)

lemma owner_text_not_empty: "owner_text \<noteq> []"
  by (simp add: owner_text_def)

subsection \<open>Inactive approvals\<close>

lemma filter_Boolean_set: "set (filter_Boolean xs) = {x. Some x \<in> set xs}"
  by (induction xs rule: filter_Boolean.induct) auto

lemma process_approval_listed:
  assumes "fst (process_approval env owner c) = Some r"
  shows "tokenAddress_text r = address_text (tokenAddress c) \<and>
         spender_text r = address_text (spender c) \<and>
         (\<exists>amount. allowance env (tokenAddress c) owner (spender c) = Some amount \<and>
                   0 < amount)"
  using assms
  by (auto simp add: process_approval_def Let_def split: option.splits if_splits)

lemma scan_approvals_listed:
  assumes "r \<in> set (approvals_of (fst (scan_approvals env owner)))"
  shows "\<exists>token spender_address amount.
           tokenAddress_text r = address_text token \<and>
           spender_text r = address_text spender_address \<and>
           allowance env token owner spender_address = Some amount \<and> 0 < amount"
proof (cases "zeroPadValue env owner")
  case (Inl e)
  with assms show ?thesis
    by (cases e) (simp add: scan_approvals_def approvals_of_def)
next
  case (Inr topic)
  show ?thesis
  proof (cases "getLogs env topic")
    case (Inl e)
    with Inr assms show ?thesis
      by (cases e) (simp add: scan_approvals_def approvals_of_def)
  next
    case (Inr logs)
    with \<open>zeroPadValue env owner = Inr topic\<close> assms
    have "Some r \<in> fst ` process_approval env owner ` set (candidates logs)"
      by (auto simp add: scan_approvals_def approvals_of_def Let_def filter_Boolean_set)
    then obtain c where "fst (process_approval env owner c) = Some r" by force
    from process_approval_listed [OF this] show ?thesis by blast
  qed
qed

lemma handler_listed:
  assumes "r \<in> set (approvals_of (fst (approvals_handler env req)))"
  shows "\<exists>owner token spender_address amount.
           walletAddress req = String owner \<and>
           tokenAddress_text r = address_text token \<and>
           spender_text r = address_text spender_address \<and>
           allowance env token owner spender_address = Some amount \<and> 0 < amount"
proof (cases "walletAddress req")
  case (String owner)
  with assms have "r \<in> set (approvals_of (fst (scan_approvals env owner)))"
    by (auto simp add: approvals_handler_def approvals_of_def split: if_splits)
  from scan_approvals_listed [OF this] String show ?thesis by blast
qed (use assms in \<open>simp_all add: approvals_handler_def approvals_of_def\<close>)

text \<open>
  C6.  For every request and every answer of the chain, each entry of the returned
  list belongs to a token and a spender whose allowance, queried for the owner of the
  request, is greater than zero; and when the allowance of a token and spender is zero,
  no entry of the list has that token and that spender.
\<close>

theorem zero_allowance_never_listed:
  "(\<forall>r \<in> set (approvals_of (fst (approvals_handler env req))).
      \<exists>owner token spender_address amount.
        walletAddress req = String owner \<and>
        tokenAddress_text r = address_text token \<and>
        spender_text r = address_text spender_address \<and>
        allowance env token owner spender_address = Some amount \<and> 0 < amount) \<and>
   (\<forall>owner token spender_address.
      walletAddress req = String owner \<and>
      allowance env token owner spender_address = Some 0 \<longrightarrow>
      (\<forall>r \<in> set (approvals_of (fst (approvals_handler env req))).
         \<not> (tokenAddress_text r = address_text token \<and>
            spender_text r = address_text spender_address)))"
proof (intro conjI ballI allI impI)
  fix r assume "r \<in> set (approvals_of (fst (approvals_handler env req)))"
  then show "\<exists>owner token spender_address amount.
      walletAddress req = String owner \<and>
      tokenAddress_text r = address_text token \<and>
      spender_text r = address_text spender_address \<and>
      allowance env token owner spender_address = Some amount \<and> 0 < amount"
    by (rule handler_listed)
next
  fix owner token spender_address r
  assume a: "walletAddress req = String owner \<and>
             allowance env token owner spender_address = Some 0"
    and r: "r \<in> set (approvals_of (fst (approvals_handler env req)))"
  show "\<not> (tokenAddress_text r = address_text token \<and>
           spender_text r = address_text spender_address)"
  proof
    assume eq: "tokenAddress_text r = address_text token \<and>
                spender_text r = address_text spender_address"
    from handler_listed [OF r] obtain owner' token' spender' amount where
      h: "walletAddress req = String owner'" "tokenAddress_text r = address_text token'"
         "spender_text r = address_text spender'"
         "allowance env token' owner' spender' = Some amount" "0 < amount"
      by blast
    from h(1) a have "owner' = owner" by simp
    moreover from h(2,3) eq have "token' = token" "spender' = spender_address"
      by (simp_all add: address_text_inject)
    ultimately show False using h(4,5) a by simp
  qed
qed

text \<open>
  In the test environment the approval of \<open>spender_B\<close> has allowance 0 and that of
  \<open>spender_A\<close> has allowance 1000: only the latter is returned.
\<close>

theorem zero_allowance_never_listed_witness:
  "walletAddress test_request = String owner_text \<and>
   allowance test_env token_T owner_text spender_B = Some 0 \<and>
   allowance test_env token_T owner_text spender_A = Some 1000 \<and>
   approvals_handler test_env test_request =
     (\<lparr>status = 200, body = Approvals 1 [expected_result]\<rparr>, test_calls) \<and>
   spender_text expected_result = address_text spender_A \<and>
   address_text spender_B \<notin>
     set (map spender_text (approvals_of (fst (approvals_handler test_env test_request))))"
proof -
  have run: "approvals_handler test_env test_request =
               (\<lparr>status = 200, body = Approvals 1 [expected_result]\<rparr>, test_calls)"
    by (simp add: approvals_handler_def test_request_def test_isAddress owner_text_not_empty
        test_scan)
  have zero: "allowance test_env token_T owner_text spender_B = Some 0"
    and positive: "allowance test_env token_T owner_text spender_A = Some 1000"
    by (simp_all add: test_env_def test_addresses_differ)
  have listed: "expected_result \<in> set (approvals_of (fst (approvals_handler test_env test_request)))"
    by (simp add: run approvals_of_def)
  from zero_allowance_never_listed [of test_env test_request] listed zero
  have "\<not> (tokenAddress_text expected_result = address_text token_T \<and>
           spender_text expected_result = address_text spender_B)"
    by (simp add: test_request_def)
  then have "address_text spender_B \<notin>
     set (map spender_text (approvals_of (fst (approvals_handler test_env test_request))))"
    by (simp add: run approvals_of_def expected_result_def token_T_text)
  with run zero positive show ?thesis
    by (simp add: test_request_def expected_result_def spender_A_text)
qed

subsection \<open>Validation of the request\<close>

text \<open>
  C8, as stated: a request whose chain selector does not match the supported chain is
  rejected with status 400 before any external call.  The selector 0 does not match
  chain 1, yet the handler's test \<open>chainId && chainId !== 1\<close> lets it pass, because 0 is
  falsy: the logs are queried and the response has status 200.
\<close>

theorem chain_selector_zero_accepted:
  "approvals_handler test_env \<lparr>walletAddress = String owner_text, chainId = Number 0\<rparr> =
     (\<lparr>status = 200, body = Approvals 1 [expected_result]\<rparr>, test_calls)"
  by (simp add: approvals_handler_def test_isAddress owner_text_not_empty test_scan)

text \<open>
  C8, amended: for every request whose owner address is malformed (not a string, the
  empty string, or a string that \<open>ethers.isAddress\<close> rejects), or whose chain selector is
  truthy (not missing, \<open>null\<close>, \<open>false\<close>, 0 or the empty string) and is not the number
  1, the response has status 400 and no external call is made.
\<close>

theorem invalid_request_rejected:
  assumes "malformed_address env (walletAddress req) \<or>
           (truthy (chainId req) \<and> chainId req \<noteq> Number 1)"
  shows "status (fst (approvals_handler env req)) = 400 \<and>
         snd (approvals_handler env req) = []"
  using assms
  by (auto simp add: approvals_handler_def malformed_address_def split: js_value.splits)

text \<open>A truncated address, and a well-formed address with the chain selector 137.\<close>

theorem invalid_request_rejected_witness:
  "malformed_address test_env (String ''0xd8da6bf26964af9d7eed'') \<and>
   approvals_handler test_env
     \<lparr>walletAddress = String ''0xd8da6bf26964af9d7eed'', chainId = Undefined\<rparr> =
     (\<lparr>status = 400, body = Error_body ''Invalid Ethereum address''\<rparr>, []) \<and>
   truthy (Number 137) \<and> Number 137 \<noteq> Number 1 \<and>
   approvals_handler test_env \<lparr>walletAddress = String owner_text, chainId = Number 137\<rparr> =
     (\<lparr>status = 400, body = Error_body ''Currently only Ethereum mainnet is supported''\<rparr>,
      [])"
proof -
  have malformed: "malformed_address test_env (String ''0xd8da6bf26964af9d7eed'')"
    by (simp add: malformed_address_def test_env_def)
  have first: "approvals_handler test_env
     \<lparr>walletAddress = String ''0xd8da6bf26964af9d7eed'', chainId = Undefined\<rparr> =
     (\<lparr>status = 400, body = Error_body ''Invalid Ethereum address''\<rparr>, [])"
    by (simp add: approvals_handler_def test_env_def)
  have second: "approvals_handler test_env
     \<lparr>walletAddress = String owner_text, chainId = Number 137\<rparr> =
     (\<lparr>status = 400, body = Error_body ''Currently only Ethereum mainnet is supported''\<rparr>,
      [])"
    by (simp add: approvals_handler_def test_isAddress owner_text_not_empty)
  from malformed first second
    invalid_request_rejected [of test_env
      "\<lparr>walletAddress = String ''0xd8da6bf26964af9d7eed'', chainId = Undefined\<rparr>"]
    invalid_request_rejected [of test_env
      "\<lparr>walletAddress = String owner_text, chainId = Number 137\<rparr>"]
  show ?thesis by simp
qed

end
